theory Spec2Isabelle
  imports Complex_Main "HOL-Library.Sublist"
begin

section \<open>JavaScript values\<close>

text \<open>
  A JavaScript number is modelled as an exact rational or \<open>NaN\<close>; the rounding of IEEE
  doubles and the infinities are not modelled. Integer-valued numbers (day counts,
  identifiers, millisecond time values) are \<open>int\<close>.
\<close>

datatype jsnum = NaN | Num rat

fun js_add :: "jsnum \<Rightarrow> jsnum \<Rightarrow> jsnum" where
  "js_add (Num a) (Num b) = Num (a + b)"
| "js_add _ _ = NaN"

text \<open>Division of a number by a positive array length.\<close>

fun js_div_len :: "jsnum \<Rightarrow> nat \<Rightarrow> jsnum" where
  "js_div_len (Num a) n = Num (a / of_nat n)"
| "js_div_len NaN n = NaN"

section \<open>JavaScript strings\<close>

text \<open>
  A JavaScript string is a sequence of UTF-16 code units. The model is \<open>string\<close>, one
  \<open>char\<close> per code unit, which covers the code units below 256 (Latin-1): every
  literal of the scripts, with the Norwegian letters (\<open>CHR 0xE5\<close> is a-ring,
  \<open>CHR 0xF8\<close> is o-slash), is in that range.
\<close>

definition isDigit :: "char \<Rightarrow> bool" where
  \<comment> \<open>the class \<open>\d\<close>\<close>
  "isDigit c = (c \<in> set ''0123456789'')"

definition isWord :: "char \<Rightarrow> bool" where
  \<comment> \<open>the class \<open>\w\<close>\<close>
  "isWord c = (c \<in> set ''abcdefghijklmnopqrstuvwxyzABCDEFGHIJKLMNOPQRSTUVWXYZ0123456789_'')"

definition isSpace :: "char \<Rightarrow> bool" where
  \<comment> \<open>the class \<open>\s\<close>, also what \<open>trim\<close> removes: tab, LF, VT, FF, CR, space, no-break space\<close>
  "isSpace c = (c \<in> set [CHR 0x09, CHR 0x0A, CHR 0x0B, CHR 0x0C, CHR 0x0D, CHR 0x20, CHR 0xA0])"

definition lowerChar :: "char \<Rightarrow> char" where
  \<comment> \<open>A-Z and the Latin-1 capitals 0xC0-0xDE (without the sign 0xD7) have their lower case
      32 above\<close>
  "lowerChar c =
     (let n = (of_char c :: nat)
      in if (65 \<le> n \<and> n \<le> 90) \<or> (192 \<le> n \<and> n \<le> 222 \<and> n \<noteq> 215)
         then char_of (n + 32) else c)"

definition upperChar :: "char \<Rightarrow> char" where
  \<comment> \<open>a-z and the Latin-1 small letters 0xE0-0xFE (without the sign 0xF7) have their upper
      case 32 below\<close>
  "upperChar c =
     (let n = (of_char c :: nat)
      in if (97 \<le> n \<and> n \<le> 122) \<or> (224 \<le> n \<and> n \<le> 254 \<and> n \<noteq> 247)
         then char_of (n - 32) else c)"

definition toLowerCase :: "string \<Rightarrow> string" where
  "toLowerCase s = map lowerChar s"

fun str_includes :: "string \<Rightarrow> string \<Rightarrow> bool" where
  \<comment> \<open>\<open>s.includes(t)\<close>\<close>
  "str_includes [] t = (t = [])"
| "str_includes (c # s) t = (prefix t (c # s) \<or> str_includes s t)"

definition trim :: "string \<Rightarrow> string" where
  "trim s = rev (dropWhile isSpace (rev (dropWhile isSpace s)))"

definition padStart2 :: "string \<Rightarrow> string" where
  \<comment> \<open>\<open>s.padStart(2, '0')\<close>\<close>
  "padStart2 s = replicate (2 - length s) (CHR ''0'') @ s"

definition capitalize :: "string \<Rightarrow> string" where
  \<comment> \<open>\<open>s.charAt(0).toUpperCase() + s.slice(1)\<close>\<close>
  "capitalize s = (case s of [] \<Rightarrow> [] | c # r \<Rightarrow> upperChar c # r)"

definition digitVal :: "char \<Rightarrow> nat" where
  \<comment> \<open>the value of a decimal digit\<close>
  "digitVal c = of_char c - 48"

definition digitsVal :: "string \<Rightarrow> nat" where
  \<comment> \<open>the value of a string of decimal digits\<close>
  "digitsVal s = foldl (\<lambda>n c. 10 * n + digitVal c) 0 s"

fun showNat :: "nat \<Rightarrow> string" where
  \<comment> \<open>the decimal digits of a number, as template literals insert it\<close>
  "showNat n = (if n < 10 then [char_of (48 + n)] else showNat (n div 10) @ [char_of (48 + n mod 10)])"

declare showNat.simps [simp del]

definition parseFloat :: "string \<Rightarrow> jsnum" where
  \<comment> \<open>\<open>parseFloat\<close> on a string of digits and dots (the capture of \<open>[0-9.]+\<close>): the longest
      prefix that is a decimal literal, \<open>NaN\<close> when that prefix has no digit\<close>
  "parseFloat s =
     (let ip = takeWhile isDigit s;
          r = dropWhile isDigit s;
          fp = (case r of [] \<Rightarrow> [] | c # r' \<Rightarrow> if c = CHR ''.'' then takeWhile isDigit r' else [])
      in if ip = [] \<and> fp = [] then NaN
         else Num (of_nat (digitsVal ip) + of_nat (digitsVal fp) / 10 ^ length fp))"

subsection \<open>Regular expressions\<close>

text \<open>
  A pattern is a function from the text at the current position to the list of its
  matches there, each with its capture and the rest of the text, in the order in which
  the backtracking matcher tries them: a greedy quantifier offers the longest repetition
  first. \<open>rx_match\<close> is \<open>String.prototype.match\<close> for a pattern without the global flag:
  the captures of the first alternative at the leftmost position that has one.
\<close>

type_synonym 'a rx = "string \<Rightarrow> ('a \<times> string) list"

definition rx_class :: "(char \<Rightarrow> bool) \<Rightarrow> nat \<Rightarrow> nat option \<Rightarrow> string rx" where
  \<comment> \<open>a character class under a greedy quantifier \<open>{lo,hi}\<close>; \<open>None\<close> is no upper bound\<close>
  "rx_class P lo hi s =
     (let run = length (takeWhile P s);
          top = (case hi of None \<Rightarrow> run | Some h \<Rightarrow> min h run)
      in map (\<lambda>n. (take n s, drop n s)) (rev [lo..<Suc top]))"

definition rx_lit :: "string \<Rightarrow> unit rx" where
  "rx_lit t s = (if prefix t s then [((), drop (length t) s)] else [])"

fun rx_match :: "'a rx \<Rightarrow> string \<Rightarrow> 'a option" where
  "rx_match re [] = (case re [] of [] \<Rightarrow> None | (c, _) # _ \<Rightarrow> Some c)"
| "rx_match re (ch # s) = (case re (ch # s) of [] \<Rightarrow> rx_match re s | (c, _) # _ \<Rightarrow> Some c)"

definition rx_numericDate :: "(string \<times> string \<times> string) rx" where
  \<comment> \<open>\<open>/(\d{1,2})\.(\d{1,2})\.(\d{4})/\<close>\<close>
  "rx_numericDate s =
     [((day, month, year), r5).
        (day, r1) \<leftarrow> rx_class isDigit 1 (Some 2) s,
        (_, r2) \<leftarrow> rx_lit ''.'' r1,
        (month, r3) \<leftarrow> rx_class isDigit 1 (Some 2) r2,
        (_, r4) \<leftarrow> rx_lit ''.'' r3,
        (year, r5) \<leftarrow> rx_class isDigit 4 (Some 4) r4]"

definition rx_norwegianDate :: "(string \<times> string \<times> string) rx" where
  \<comment> \<open>\<open>/(\d{1,2})\.\s*(\w+)\s*(\d{4})/i\<close>; the flag changes nothing, the pattern has no letter\<close>
  "rx_norwegianDate s =
     [((day, monthName, year), r6).
        (day, r1) \<leftarrow> rx_class isDigit 1 (Some 2) s,
        (_, r2) \<leftarrow> rx_lit ''.'' r1,
        (_, r3) \<leftarrow> rx_class isSpace 0 None r2,
        (monthName, r4) \<leftarrow> rx_class isWord 1 None r3,
        (_, r5) \<leftarrow> rx_class isSpace 0 None r4,
        (year, r6) \<leftarrow> rx_class isDigit 4 (Some 4) r5]"

definition rx_mdg :: "string rx" where
  \<comment> \<open>\<open>/MDG=([0-9.]+)/\<close>\<close>
  "rx_mdg s =
     [(v, r2).
        (_, r1) \<leftarrow> rx_lit ''MDG='' s,
        (v, r2) \<leftarrow> rx_class (\<lambda>c. isDigit c \<or> c = CHR ''.'') 1 None r1]"

section \<open>Dates\<close>

text \<open>
  A \<open>Date\<close> object is its time value in milliseconds since 1970-01-01 UTC, or invalid
  (time value \<open>NaN\<close>). An invalid \<open>Date\<close> is an object and therefore truthy.
\<close>

datatype jsdate = InvalidDate | DateMs int

definition msPerDay :: int where
  "msPerDay = 1000 * 3600 * 24"

definition days_from_civil :: "int \<Rightarrow> int \<Rightarrow> int \<Rightarrow> int" where
  \<comment> \<open>the day number of a date of the proleptic Gregorian calendar; a day beyond the end
      of the month runs into the next month\<close>
  "days_from_civil yr m d =
     (let y' = (if m \<le> 2 then yr - 1 else yr);
          era = y' div 400;
          yoe = y' - era * 400;
          doy = (153 * (if m > 2 then m - 3 else m + 9) + 2) div 5 + d - 1;
          doe = yoe * 365 + yoe div 4 - yoe div 100 + doy
      in era * 146097 + doe - 719468)"

definition newDate :: "string \<Rightarrow> string \<Rightarrow> string \<Rightarrow> jsdate" where
  \<comment> \<open>\<open>new Date(`${year}-${month}-${day}`)\<close> for a year of four digits and a month and a day
      of two digits each: the date-only ISO form, read as UTC midnight. Node's parser
      takes any month 1-12 and any day 1-31, and the time value carries a day past the
      end of the month into the next month.\<close>
  "newDate year month day =
     (let yr = int (digitsVal year); m = int (digitsVal month); d = int (digitsVal day)
      in if 1 \<le> m \<and> m \<le> 12 \<and> 1 \<le> d \<and> d \<le> 31
         then DateMs (days_from_civil yr m d * msPerDay)
         else InvalidDate)"

definition toISODate :: "int \<Rightarrow> int" where
  \<comment> \<open>\<open>toISOString().split('T')[0]\<close> of a time value: the calendar day it falls on in UTC,
      as a day number\<close>
  "toISODate t = t div msPerDay"

section \<open>Data model (interfaces Poll, Election, ElectionData)\<close>

datatype scope = National | Regional | Unknown

text \<open>
  The field \<open>date\<close> of the source is an ISO string \<open>YYYY-MM-DD\<close>; the model stores the
  day number of that calendar date (days since 1970-01-01), which is what
  \<open>new Date(date)\<close> reads from it, divided by the milliseconds of a day.
  Optional fields of the interface are options.
\<close>

record poll =
  date :: int
  mdgPercentage :: jsnum
  pollster :: string
  daysUntilElection :: int
  rssTitle :: "string option"
  url :: string
  scope :: "scope option"
  region :: "string option"

record election =
  electionDate :: int
  polls :: "poll list"
  actualResult :: "rat option"

type_synonym dataset = "int \<rightharpoonup> election"

section \<open>Fetched pages\<close>

text \<open>
  A fetched page is represented by what the scripts select from it with cheerio: the text
  of \<open>body\<close>, of \<open>title\<close>, of the first \<open>blockquote\<close> and of all \<open>th\<close> elements; the
  \<open>href\<close> of every anchor that has one and the content of every \<open>script\<close> element
  (empty when it has none), both in document order; and, for every row of the table
  that follows the heading of the facts section, the texts of its \<open>td\<close> cells.
  The web is a function from the requested URL to the page or to a failure of
  \<open>axios.get\<close>.
\<close>

record page =
  bodyText :: string
  titleText :: string
  blockquoteText :: string
  thText :: string
  anchorHrefs :: "string list"
  scriptContents :: "string list"
  factRows :: "string list list"

datatype response = NetworkError | Page page

type_synonym web = "string \<Rightarrow> response"

section \<open>Extractor (scripts/update-polls.js, fetchPollDetails)\<close>

definition norwegianMonths :: "(string \<times> string) list" where
  "norwegianMonths =
     [(''januar'', ''01''), (''februar'', ''02''), (''mars'', ''03''), (''april'', ''04''),
      (''mai'', ''05''), (''juni'', ''06''), (''juli'', ''07''), (''august'', ''08''),
      (''september'', ''09''), (''oktober'', ''10''), (''november'', ''11''), (''desember'', ''12'')]"

text \<open>
  \<open>norwegianMonths[key]\<close> reads a property of an object literal: for a key that is not a
  month name it is \<open>undefined\<close>, except that the keys \<open>constructor\<close> and \<open>__proto__\<close>
  (the only names on \<open>Object.prototype\<close> that a lower-cased \<open>\w+\<close> can spell) read an
  inherited object, which is truthy.
\<close>

datatype property = Absent | Own string | Inherited

definition lookupMonth :: "string \<Rightarrow> property" where
  "lookupMonth key =
     (case map_of norwegianMonths key of
        Some monthNum \<Rightarrow> Own monthNum
      | None \<Rightarrow> if key \<in> set [''constructor'', ''__proto__''] then Inherited else Absent)"

definition blockquoteDate :: "string \<Rightarrow> jsdate option" where
  \<comment> \<open>Method 1 on the text of the first blockquote; \<open>None\<close> is \<open>pollDate\<close> left \<open>null\<close>\<close>
  "blockquoteDate dateText =
     (case rx_match rx_numericDate dateText of
        None \<Rightarrow> None
      | Some (day, month, year) \<Rightarrow> Some (newDate year (padStart2 month) (padStart2 day)))"

definition norwegianDate :: "string \<Rightarrow> jsdate option" where
  \<comment> \<open>Methods 2 and 3, on the text of the body and of the title. With an inherited
      property for a month number the string given to \<open>Date\<close> is no date.\<close>
  "norwegianDate text =
     (case rx_match rx_norwegianDate text of
        None \<Rightarrow> None
      | Some (day, monthName, year) \<Rightarrow>
          (case lookupMonth (toLowerCase monthName) of
             Absent \<Rightarrow> None
           | Own monthNum \<Rightarrow> Some (newDate year monthNum (padStart2 day))
           | Inherited \<Rightarrow> Some InvalidDate))"

definition extractDate :: "page \<Rightarrow> jsdate option" where
  "extractDate p =
     (let pollDate = blockquoteDate (blockquoteText p);
          pollDate = (if pollDate = None then norwegianDate (bodyText p) else pollDate);
          pollDate = (if pollDate = None then norwegianDate (titleText p) else pollDate)
      in pollDate)"

definition truthy :: "jsnum option \<Rightarrow> bool" where
  \<comment> \<open>\<open>null\<close>, \<open>NaN\<close> and 0 are falsy\<close>
  "truthy v = (case v of None \<Rightarrow> False | Some NaN \<Rightarrow> False | Some (Num r) \<Rightarrow> r \<noteq> 0)"

text \<open>The variable \<open>mdgPercentage\<close> of \<open>fetchPollDetails\<close> is \<open>mdg\<close> here.\<close>

definition extractPercentage :: "page \<Rightarrow> jsnum option" where
  "extractPercentage p =
     (let mandateLinks = filter (\<lambda>href. str_includes href ''MDG='') (anchorHrefs p);
          mdg =
            fold (\<lambda>href mdg.
                    case rx_match rx_mdg href of
                      Some m \<Rightarrow> if \<not> truthy mdg then Some (parseFloat m) else mdg
                    | None \<Rightarrow> mdg)
                 mandateLinks None
      in if \<not> truthy mdg
         then fold (\<lambda>scriptContent mdg.
                      if scriptContent \<noteq> [] \<and> str_includes scriptContent ''MDG=''
                      then (case rx_match rx_mdg scriptContent of
                              Some m \<Rightarrow> Some (parseFloat m)
                            | None \<Rightarrow> mdg)
                      else mdg)
                   (scriptContents p) mdg
         else mdg)"

definition extractPollster :: "page \<Rightarrow> string" where
  \<comment> \<open>\<open>title.match(/^([^,]+)/)\<close>, trimmed\<close>
  "extractPollster p =
     (case rx_class (\<lambda>c. c \<noteq> CHR '','') 1 None (titleText p) of
        [] \<Rightarrow> ''Unknown''
      | (m, _) # _ \<Rightarrow> trim m)"

definition extractScope :: "page \<Rightarrow> scope" where
  "extractScope p =
     fold (\<lambda>cells scope'.
             if length cells \<ge> 2 then
               let label = trim (cells ! 0); value = trim (cells ! 1)
               in if label = ''Omr'' @ [CHR 0xE5] @ ''de''
                  then (if value = ''Hele landet'' then National else Regional)
                  else scope'
             else scope')
          (factRows p) Unknown"

text \<open>The object that \<open>fetchPollDetails\<close> returns; it has no field for a region.\<close>

record pollDetails =
  details_date :: "jsdate option"
  details_mdgPercentage :: "jsnum option"
  details_pollster :: string
  details_url :: string
  details_scope :: scope

definition notFoundMessage :: string where
  "notFoundMessage = ''Meningsm'' @ [CHR 0xE5] @ ''lingen eksisterer ikke i databasen''"

definition fetchPollDetails :: "web \<Rightarrow> string \<Rightarrow> pollDetails option" where
  "fetchPollDetails w u =
     (case w u of
        NetworkError \<Rightarrow> None
      | Page p \<Rightarrow>
          if str_includes (bodyText p) notFoundMessage then None
          else Some \<lparr>details_date = extractDate p,
                     details_mdgPercentage = extractPercentage p,
                     details_pollster = extractPollster p,
                     details_url = u,
                     details_scope = extractScope p\<rparr>)"

section \<open>Cycle assignment (scripts/update-polls.js)\<close>

text \<open>\<open>ELECTION_DATES\<close>, in the order of \<open>Object.entries\<close>, each date as its time value.\<close>

definition ELECTION_DATES :: "(int \<times> int) list" where
  "ELECTION_DATES =
     [(2013, days_from_civil 2013 9 9 * msPerDay),
      (2017, days_from_civil 2017 9 11 * msPerDay),
      (2021, days_from_civil 2021 9 13 * msPerDay),
      (2025, days_from_civil 2025 9 8 * msPerDay)]"

definition calculateDaysUntilElection :: "int \<Rightarrow> int \<Rightarrow> int" where
  "calculateDaysUntilElection pollDate elDate =
     (let timeDiff = elDate - pollDate
      in \<lceil>(of_int timeDiff :: rat) / of_int msPerDay\<rceil>)"

text \<open>
  \<open>closestDistance\<close> starts as \<open>Infinity\<close>, which is \<open>None\<close> here. For an invalid date every
  comparison with its time value is false: the date is not before 2013, no distance is
  below \<open>Infinity\<close>, and \<open>Infinity <= 730\<close> fails, so the result is \<open>null\<close>.
\<close>

definition determineElectionYear :: "jsdate \<Rightarrow> int option" where
  "determineElectionYear pollDate =
     (case pollDate of
        InvalidDate \<Rightarrow> None
      | DateMs t \<Rightarrow>
          if t < the (map_of ELECTION_DATES 2013) then None
          else
            let distances = map (\<lambda>(year, elDate).
                                   (year, (of_int \<bar>elDate - t\<bar> :: rat) / of_int msPerDay))
                                ELECTION_DATES;
                (closestYear, closestDistance) =
                  fold (\<lambda>(year, distance) (closestYear, closestDistance).
                          if (case closestDistance of None \<Rightarrow> True | Some c \<Rightarrow> distance < c)
                          then (Some year, Some distance)
                          else (closestYear, closestDistance))
                       distances (None, None)
            in if (case closestDistance of None \<Rightarrow> False | Some c \<Rightarrow> c \<le> 730)
               then closestYear else None)"

text \<open>
  What \<open>fetchNewPolls\<close> does with the details of a page that exists: the entry it pushes
  on \<open>newPolls\<close>, or \<open>None\<close> when it only logs. The record it builds has the six fields
  below; \<open>rssTitle\<close> and \<open>region\<close> are not set.
\<close>

definition newPollEntry :: "pollDetails \<Rightarrow> (int \<times> poll) option" where
  "newPollEntry pollDetails =
     (case (details_date pollDetails, details_mdgPercentage pollDetails) of
        (Some pollDate, Some mdg) \<Rightarrow>
          (case determineElectionYear pollDate of
             None \<Rightarrow> None
           | Some electionYear \<Rightarrow>
               (case (pollDate, map_of ELECTION_DATES electionYear) of
                  (DateMs t, Some elDate) \<Rightarrow>
                    let daysUntil = calculateDaysUntilElection t elDate
                    in if daysUntil \<ge> 0 \<and> daysUntil \<le> 730
                       then Some (electionYear,
                              \<lparr>date = toISODate t,
                               mdgPercentage = mdg,
                               pollster = details_pollster pollDetails,
                               daysUntilElection = daysUntil,
                               rssTitle = None,
                               url = details_url pollDetails,
                               scope = Some (details_scope pollDetails),
                               region = None\<rparr>)
                       else None
                | _ \<Rightarrow> None))
      | _ \<Rightarrow> None)"

definition pollUrl :: "nat \<Rightarrow> string" where
  "pollUrl n = ''https://www.pollofpolls.no'' @ ''/?cmd=Maling&gallupid='' @ showNat n"

function fetchLoop :: "web \<Rightarrow> nat \<Rightarrow> nat \<Rightarrow> nat \<Rightarrow> (int \<times> poll) list \<Rightarrow> (int \<times> poll) list" where
  "fetchLoop w lastId n consecutiveNonExistent newPolls =
     (if n \<le> lastId \<and> consecutiveNonExistent < 30 then
        (case fetchPollDetails w (pollUrl n) of
           None \<Rightarrow> fetchLoop w lastId (n + 1) (consecutiveNonExistent + 1) newPolls
         | Some pollDetails \<Rightarrow>
             fetchLoop w lastId (n + 1) 0
               (case newPollEntry pollDetails of
                  None \<Rightarrow> newPolls
                | Some entry \<Rightarrow> newPolls @ [entry]))
      else newPolls)"
  by pat_completeness auto
termination
  by (relation "measure (\<lambda>(w, lastId, n, consecutiveNonExistent, newPolls). lastId + 1 - n)") auto

declare fetchLoop.simps [simp del]

definition fetchNewPolls :: "web \<Rightarrow> nat \<Rightarrow> nat \<Rightarrow> (int \<times> poll) list" where
  "fetchNewPolls w startId maxChecks = fetchLoop w (startId + maxChecks) startId 0 []"

section \<open>Merger (scripts/update-polls.js, run)\<close>

datatype error = TypeError | WriteError

definition actualResults :: "(int \<times> rat) list" where
  "actualResults = [(2013, 28 / 10), (2017, 32 / 10), (2021, 39 / 10)]"

text \<open>
  One call of the function given to \<open>newPolls.forEach\<close>, on the data and the count of
  added polls. For a year without a cycle that is no key of \<open>ELECTION_DATES\<close> the call
  of \<open>toISOString\<close> on \<open>undefined\<close> throws.
\<close>

definition addPoll :: "int \<times> poll \<Rightarrow> dataset \<times> nat \<Rightarrow> error + dataset \<times> nat" where
  "addPoll entry st =
     (case entry of (electionYear, p) \<Rightarrow>
      case st of (existingData, addedCount) \<Rightarrow>
        (case (case existingData electionYear of
                 Some _ \<Rightarrow> Inr existingData
               | None \<Rightarrow>
                   (case map_of ELECTION_DATES electionYear of
                      None \<Rightarrow> Inl TypeError
                    | Some elDate \<Rightarrow>
                        Inr (existingData(electionYear \<mapsto>
                               \<lparr>electionDate = toISODate elDate,
                                polls = [],
                                actualResult = map_of actualResults electionYear\<rparr>))))
         of Inl e \<Rightarrow> Inl e
          | Inr data \<Rightarrow>
              (case data electionYear of
                 None \<Rightarrow> Inl TypeError
               | Some el \<Rightarrow>
                   let exists = (\<exists>q \<in> set (polls el). url q = url p)
                   in if \<not> exists
                      then Inr (data(electionYear \<mapsto> el\<lparr>polls := polls el @ [p]\<rparr>), addedCount + 1)
                      else Inr (data, addedCount))))"

fun addPolls :: "(int \<times> poll) list \<Rightarrow> dataset \<times> nat \<Rightarrow> error + dataset \<times> nat" where
  "addPolls [] st = Inr st"
| "addPolls (entry # newPolls) st =
     (case addPoll entry st of Inl e \<Rightarrow> Inl e | Inr st' \<Rightarrow> addPolls newPolls st')"

definition sortPolls :: "dataset \<Rightarrow> dataset" where
  \<comment> \<open>the stable \<open>sort\<close> of every cycle's polls by the time value of \<open>date\<close>\<close>
  "sortPolls data = (\<lambda>year. map_option (\<lambda>el. el\<lparr>polls := sort_key date (polls el)\<rparr>) (data year))"

text \<open>
  The part of \<open>run\<close> after the fetch, from the data file's content and the new polls to
  the data file's content when the run ends: nothing is saved when there is no new
  poll, when adding throws (the handler exits), or when every new poll was a duplicate.
\<close>

definition mergeNewPolls :: "dataset \<Rightarrow> (int \<times> poll) list \<Rightarrow> dataset" where
  "mergeNewPolls existingData newPolls =
     (if length newPolls = 0 then existingData
      else case addPolls newPolls (existingData, 0) of
             Inl e \<Rightarrow> existingData
           | Inr (data, addedCount) \<Rightarrow>
               if addedCount > 0 then sortPolls data else existingData)"

section \<open>Persisting the data file (saveData)\<close>

text \<open>
  The file system is a map from paths to contents. \<open>fs.writeFileSync(path, text)\<close> opens
  the file for writing, which empties it, and writes the text; it can fail before the
  file is opened or after some of the text has been written, and then throws.
\<close>

type_synonym fs = "string \<rightharpoonup> string"

datatype writeOutcome = Written | FailedOpening | FailedAfter nat

definition writeFileSync :: "writeOutcome \<Rightarrow> string \<Rightarrow> string \<Rightarrow> fs \<Rightarrow> fs \<times> (error + unit)" where
  "writeFileSync outcome path text files =
     (case outcome of
        Written \<Rightarrow> (files(path \<mapsto> text), Inr ())
      | FailedOpening \<Rightarrow> (files, Inl WriteError)
      | FailedAfter n \<Rightarrow> (files(path \<mapsto> take n text), Inl WriteError))"

text \<open>
  \<open>saveData\<close> of \<open>PollUpdater\<close>, \<open>PollFetcher\<close> and \<open>PollClassificationFixer\<close>, on the
  serialised data \<open>JSON.stringify(data, null, 2)\<close>: one write to the data file; an error is
  logged and thrown again.
\<close>

definition saveData :: "writeOutcome \<Rightarrow> string \<Rightarrow> string \<Rightarrow> fs \<Rightarrow> fs \<times> (error + unit)" where
  "saveData outcome file json files =
     (case writeFileSync outcome file json files of
        (files', Inr u) \<Rightarrow> (files', Inr u)
      | (files', Inl e) \<Rightarrow> (files', Inl e))"

section \<open>Re-classification (scripts/fix-poll-classification.js)\<close>

definition regions :: "string list" where
  "regions =
     [''oslo'', ''akershus'', CHR 0xF8 # ''stfold'', ''vestfold'', ''telemark'', ''buskerud'',
      ''oppland'', ''hedmark'', ''vest-agder'', ''aust-agder'', ''agder'', ''rogaland'',
      ''hordaland'', ''bergen'', ''sogn og fjordane'', ''m'' @ [CHR 0xF8] @ ''re og romsdal'',
      ''s'' @ [CHR 0xF8] @ ''r-tr'' @ [CHR 0xF8] @ ''ndelag'', ''tr'' @ [CHR 0xF8] @ ''ndelag'',
      ''trondheim'', ''nord-tr'' @ [CHR 0xF8] @ ''ndelag'', ''nordland'',
      ''troms'', ''finnmark'', ''stavanger'', ''kristiansand'', ''troms'' @ [CHR 0xF8],
      ''drammen'', ''fredrikstad'', ''sarpsborg'', ''skien'', CHR 0xE5 # ''lesund'', ''bod'' @ [CHR 0xF8],
      ''molde'', ''haugesund'', ''sandnes'', ''t'' @ [CHR 0xF8] @ ''nsberg'', ''moss'', ''arendal'']"

definition regionPatternTest :: "string \<Rightarrow> string \<Rightarrow> bool" where
  \<comment> \<open>\<open>new RegExp(`, ${region} /`, 'i').test(pageText)\<close>: the region names are lower case
      and have no character that is special in a pattern\<close>
  "regionPatternTest region' pageText = str_includes (toLowerCase pageText) ('', '' @ region' @ '' /'')"

definition analyzePollScope :: "web \<Rightarrow> string \<Rightarrow> scope \<times> string option" where
  "analyzePollScope w u =
     (case w u of
        NetworkError \<Rightarrow> (Unknown, None)
      | Page p \<Rightarrow>
          let pageText = bodyText p; title = toLowerCase (titleText p)
          in if str_includes pageText '', hele landet /'' \<or> str_includes title ''hele landet''
             then (National, None)
             else (case find (\<lambda>region'. regionPatternTest region' pageText
                                         \<or> str_includes title (toLowerCase region')) regions of
                     Some region' \<Rightarrow> (Regional, Some (capitalize region'))
                   | None \<Rightarrow>
                       if str_includes (toLowerCase (thText p)) ''hele landet''
                       then (National, None)
                       else (Unknown, None)))"

text \<open>The body of the inner loop of \<open>fixExistingClassification\<close>, for one stored poll.\<close>

definition fixPoll :: "web \<Rightarrow> poll \<Rightarrow> poll" where
  "fixPoll w p =
     (if scope p \<noteq> Some National then p
      else case analyzePollScope w (url p) of
             (correctScope, correctRegion) \<Rightarrow>
               p\<lparr>scope := Some correctScope,
                 region := (case correctRegion of
                              Some r \<Rightarrow> if r \<noteq> [] then Some r else None
                            | None \<Rightarrow> None)\<rparr>)"


section \<open>Trend smoother (utils/rollingAverage)\<close>

text \<open>Interface \<open>AveragePoint\<close>; its fields \<open>x\<close> and \<open>y\<close> are \<open>point_x\<close> and \<open>point_y\<close>.\<close>

record AveragePoint =
  point_x :: int
  point_y :: jsnum

text \<open>
  The body of the \<open>for\<close> loop of \<open>calculateRollingAverage\<close>. The source computes
  \<open>step = Math.max(3, Math.floor((maxDays - minDays) / 100))\<close> once before the loop;
  the loop function receives the floor \<open>k\<close> and takes the maximum with 3 itself, which
  makes the progress of \<open>day\<close> visible to the termination proof.
\<close>

function rollingLoop :: "poll list \<Rightarrow> rat \<Rightarrow> int \<Rightarrow> int \<Rightarrow> int \<Rightarrow> AveragePoint list \<Rightarrow> AveragePoint list" where
  "rollingLoop sortedPolls windowDays k maxDays day averages =
     (if day \<le> maxDays then
        let step = max 3 k;
            windowStart = of_int day - windowDays / 2;
            windowEnd = of_int day + windowDays / 2;
            pollsInWindow = filter (\<lambda>p. of_int (daysUntilElection p) \<ge> windowStart
                                      \<and> of_int (daysUntilElection p) \<le> windowEnd) sortedPolls
        in rollingLoop sortedPolls windowDays k maxDays (day + step)
             (if length pollsInWindow > 0
              then averages @ [\<lparr>point_x = day,
                     point_y = js_div_len (foldl (\<lambda>sum p. js_add sum (mdgPercentage p)) (Num 0) pollsInWindow)
                                    (length pollsInWindow)\<rparr>]
              else averages)
      else averages)"
  by pat_completeness auto
termination
  by (relation "measure (\<lambda>(sortedPolls, windowDays, k, maxDays, day, averages). nat (maxDays + 1 - day))") auto

declare rollingLoop.simps [simp del]

definition calculateRollingAverage :: "poll list \<Rightarrow> rat \<Rightarrow> AveragePoint list" where
  "calculateRollingAverage ps windowDays =
     (if length ps < 2 then []
      else
        let sortedPolls = sort_key daysUntilElection ps;
            minDays = Min (set (map daysUntilElection sortedPolls));
            maxDays = Max (set (map daysUntilElection sortedPolls))
        in rollingLoop sortedPolls windowDays ((maxDays - minDays) div 100) maxDays minDays [])"

section \<open>Notions used in the statements\<close>

definition alreadyStored :: "dataset \<Rightarrow> int \<times> poll \<Rightarrow> bool" where
  \<comment> \<open>the cycle of the entry's year exists and has a poll with the entry's URL\<close>
  "alreadyStored data entry =
     (case data (fst entry) of
        None \<Rightarrow> False
      | Some el \<Rightarrow> \<exists>q\<in>set (polls el). url q = url (snd entry))"

definition addedCount :: "dataset \<Rightarrow> (int \<times> poll) list \<Rightarrow> nat" where
  \<comment> \<open>the value of \<open>addedCount\<close> after \<open>newPolls.forEach\<close>; 0 when the loop throws\<close>
  "addedCount data newPolls =
     (case addPolls newPolls (data, 0) of Inl e \<Rightarrow> 0 | Inr (data', n) \<Rightarrow> n)"

definition cyclesSorted :: "dataset \<Rightarrow> bool" where
  \<comment> \<open>in every cycle the polls are in ascending order of date\<close>
  "cyclesSorted data = (\<forall>year el. data year = Some el \<longrightarrow> sorted (map date (polls el)))"

section \<open>Sample data\<close>

definition samplePoll :: "nat \<Rightarrow> int \<Rightarrow> int \<Rightarrow> rat \<Rightarrow> poll" where
  "samplePoll gallupid day n v =
     \<lparr>date = day, mdgPercentage = Num v, pollster = ''Norstat for NRK'', daysUntilElection = n,
      rssTitle = None, url = pollUrl gallupid, scope = Some National, region = None\<rparr>"


definition storedCycle :: election where
  "storedCycle =
     \<lparr>electionDate = 20339,
      polls = [samplePoll 5534 20327 12 (23 / 5), samplePoll 5555 20328 11 (28 / 5)],
      actualResult = None\<rparr>"

definition storedData :: dataset where
  "storedData = Map.empty(2025 \<mapsto> storedCycle)"

definition newBatch :: "(int \<times> poll) list" where
  "newBatch = [(2025, samplePoll 5557 20330 9 6), (2025, samplePoll 5556 20329 10 5),
               (2025, samplePoll 5534 20327 12 (23 / 5)), (2021, samplePoll 5000 18800 83 4)]"



definition lateDetails :: pollDetails where
  \<comment> \<open>a poll of 2021-12-22, 100 days after the election of 2021-09-13\<close>
  "lateDetails =
     \<lparr>details_date = Some (DateMs (18983 * msPerDay)), details_mdgPercentage = Some (Num 4),
      details_pollster = ''Norstat for NRK'', details_url = pollUrl 5100, details_scope = National\<rparr>"

definition boundaryDetails :: pollDetails where
  \<comment> \<open>a poll of 2019-09-14, 730 days before the election of 2021-09-13\<close>
  "boundaryDetails =
     \<lparr>details_date = Some (DateMs (18153 * msPerDay)), details_mdgPercentage = Some (Num 4),
      details_pollster = ''Norstat for NRK'', details_url = pollUrl 4100, details_scope = National\<rparr>"

definition osloPage :: page where
  "osloPage =
     \<lparr>bodyText = ''Norstat for NRK 20. august 2025 Omr'' @ [CHR 0xE5] @ ''de Oslo'',
      titleText = ''pollofpolls.no - Norstat for NRK 20. august 2025'',
      blockquoteText = [],
      thText = ''Parti Oppslutning'',
      anchorHrefs = [''?cmd=Mandatfordeling&Ap=25.3&MDG=5.8&H=20.1''],
      scriptContents = [],
      factRows = [[''Omr'' @ [CHR 0xE5] @ ''de'', ''Oslo'']]\<rparr>"

definition bergenPage :: page where
  "bergenPage =
     \<lparr>bodyText = ''Respons for Bergens Tidende 1. mai 2025 Omr'' @ [CHR 0xE5] @ ''de Hele landet'',
      titleText = ''pollofpolls.no - Respons for Bergens Tidende 2. juni 2025'',
      blockquoteText = ''Publisert 27.08.2025'',
      thText = ''Parti Oppslutning'',
      anchorHrefs = [''?cmd=Mandatfordeling&Ap=27.0&MDG=4.1''],
      scriptContents = [],
      factRows = [[''Omr'' @ [CHR 0xE5] @ ''de'', ''Hele landet'']]\<rparr>"

definition titlePage :: page where
  "titlePage =
     \<lparr>bodyText = ''Verian for TV2'',
      titleText = ''pollofpolls.no - Verian for TV2 30. august 2025'',
      blockquoteText = [],
      thText = [],
      anchorHrefs = [''?cmd=Mandatfordeling&MDG=6.0''],
      scriptContents = [],
      factRows = []\<rparr>"

definition undatedPage :: page where
  "undatedPage =
     \<lparr>bodyText = ''Verian for TV2'',
      titleText = ''pollofpolls.no - Verian for TV2'',
      blockquoteText = [],
      thText = [],
      anchorHrefs = [''?cmd=Mandatfordeling&MDG=6.0''],
      scriptContents = [],
      factRows = []\<rparr>"

definition twoScriptsPage :: page where
  "twoScriptsPage =
     \<lparr>bodyText = ''Norstat for NRK 20. august 2025'',
      titleText = ''pollofpolls.no - Norstat for NRK 20. august 2025'',
      blockquoteText = [],
      thText = [],
      anchorHrefs = [],
      scriptContents = [''url = ?Ap=25.3&MDG=3.1&H=20'', ''url = ?Ap=25.3&MDG=4.2&H=20''],
      factRows = []\<rparr>"

definition zeroLinkPage :: page where
  "zeroLinkPage =
     \<lparr>bodyText = ''Norstat for NRK 20. august 2025'',
      titleText = ''pollofpolls.no - Norstat for NRK 20. august 2025'',
      blockquoteText = [],
      thText = [],
      anchorHrefs = [''?cmd=Mandatfordeling&Ap=25.3&MDG=0.0'', ''?cmd=Mandatfordeling&Ap=25.3&MDG=4.5''],
      scriptContents = [],
      factRows = []\<rparr>"

definition sampleWeb :: web where
  "sampleWeb u =
     (if u = pollUrl 5557 then Page osloPage
      else if u = pollUrl 5558 then Page bergenPage
      else if u = pollUrl 5559 then Page titlePage
      else if u = pollUrl 5560 then Page undatedPage
      else NetworkError)"

definition osloPoll :: poll where
  "osloPoll =
     \<lparr>date = 20320, mdgPercentage = Num (29 / 5),
      pollster = ''pollofpolls.no - Norstat for NRK 20. august 2025'', daysUntilElection = 19,
      rssTitle = None, url = pollUrl 5557, scope = Some Regional, region = None\<rparr>"







definition dataFile :: string where
  "dataFile = ''data/polling-data.json''"

section \<open>Evaluation of the sample data\<close>

lemmas string_defs = isDigit_def isWord_def isSpace_def toLowerCase_def lowerChar_def upperChar_def
  char_of_def bit_Suc_0_iff trim_def padStart2_def capitalize_def digitsVal_def
  digitVal_def showNat.simps parseFloat_def pollUrl_def

lemmas rx_defs = rx_class_def rx_lit_def rx_numericDate_def rx_norwegianDate_def rx_mdg_def

lemmas date_defs = msPerDay_def days_from_civil_def newDate_def toISODate_def

lemmas method_defs = norwegianMonths_def lookupMonth_def blockquoteDate_def norwegianDate_def

lemmas extract_defs = extractDate_def truthy_def extractPercentage_def extractPollster_def
  extractScope_def notFoundMessage_def fetchPollDetails_def

lemmas cycle_defs = ELECTION_DATES_def calculateDaysUntilElection_def determineElectionYear_def
  newPollEntry_def

lemmas page_defs = osloPage_def bergenPage_def titlePage_def undatedPage_def sampleWeb_def

lemma oslo_details:
  "fetchPollDetails sampleWeb (pollUrl 5557) =
     Some \<lparr>details_date = Some (DateMs 1755648000000), details_mdgPercentage = Some (Num (29 / 5)),
           details_pollster = ''pollofpolls.no - Norstat for NRK 20. august 2025'',
           details_url = pollUrl 5557, details_scope = Regional\<rparr>"
  by (simp add: string_defs rx_defs date_defs method_defs extract_defs page_defs Let_def)




lemma oslo_entry:
  "newPollEntry \<lparr>details_date = Some (DateMs 1755648000000), details_mdgPercentage = Some (Num (29 / 5)),
           details_pollster = ''pollofpolls.no - Norstat for NRK 20. august 2025'',
           details_url = pollUrl 5557, details_scope = Regional\<rparr> = Some (2025, osloPoll)"
  by (simp add: cycle_defs date_defs osloPoll_def Let_def)




lemma fetch_oslo: "fetchNewPolls sampleWeb 5557 0 = [(2025, osloPoll)]"
  by (simp add: fetchNewPolls_def fetchLoop.simps oslo_details oslo_entry)



section \<open>Properties of the trend smoother\<close>






text \<open>
  C10. For an input of fewer than two samples, in particular a single sample,
  \<open>calculateRollingAverage\<close> returns the empty series, whatever the window width.
\<close>

theorem fewer_than_two_samples_empty:
  "length ps < 2 \<Longrightarrow> calculateRollingAverage ps windowDays = []"
  by (simp add: calculateRollingAverage_def)

theorem fewer_than_two_samples_empty_witness:
  "length [samplePoll 5534 20327 12 (23 / 5)] < 2
   \<and> calculateRollingAverage [samplePoll 5534 20327 12 (23 / 5)] 7 = []"
  using fewer_than_two_samples_empty[of "[samplePoll 5534 20327 12 (23 / 5)]" 7] by simp

section \<open>Properties of the merger\<close>

lemma addPoll_cases:
  assumes "addPoll (year, p) (data, n) = Inr (data', n')"
  obtains (dup) el where "data year = Some el" "\<exists>q\<in>set (polls el). url q = url p"
        "data' = data" "n' = n"
    | (add) el where "data year = Some el" "\<forall>q\<in>set (polls el). url q \<noteq> url p"
        "data' = data(year \<mapsto> el\<lparr>polls := polls el @ [p]\<rparr>)" "n' = n + 1"
    | (new) elDate where "data year = None" "map_of ELECTION_DATES year = Some elDate"
        "data' = data(year \<mapsto> \<lparr>electionDate = toISODate elDate, polls = [p],
                                   actualResult = map_of actualResults year\<rparr>)" "n' = n + 1"
  using assms
  by (auto simp: addPoll_def Let_def split: option.splits if_splits)

lemma addPoll_stored:
  assumes "addPoll entry (data, n) = Inr (data', n')"
  shows "alreadyStored data' entry \<and> (\<forall>e. alreadyStored data e \<longrightarrow> alreadyStored data' e)
         \<and> n \<le> n' \<and> (n' = n \<longrightarrow> data' = data)"
proof -
  obtain year p where entry: "entry = (year, p)" by (cases entry)
  from assms[unfolded entry] show ?thesis
  proof (cases rule: addPoll_cases)
    case (dup el)
    then show ?thesis by (auto simp: alreadyStored_def entry)
  next
    case (add el)
    then show ?thesis by (auto simp: alreadyStored_def entry split: option.splits)
  next
    case (new elDate)
    then show ?thesis by (auto simp: alreadyStored_def entry split: option.splits)
  qed
qed

lemma addPolls_stored:
  assumes "addPolls es (data, n) = Inr (data', n')"
  shows "(\<forall>e\<in>set es. alreadyStored data' e) \<and> (\<forall>e. alreadyStored data e \<longrightarrow> alreadyStored data' e)
         \<and> n \<le> n' \<and> (n' = n \<longrightarrow> data' = data)"
  using assms
proof (induction es arbitrary: data n)
  case Nil
  then show ?case by simp
next
  case (Cons entry es)
  from Cons.prems obtain d1 n1 where 1: "addPoll entry (data, n) = Inr (d1, n1)"
    and 2: "addPolls es (d1, n1) = Inr (data', n')"
    by (auto split: sum.splits)
  note a = addPoll_stored[OF 1] and b = Cons.IH[OF 2]
  have "alreadyStored data' entry" using a b by blast
  moreover have "\<forall>e\<in>set es. alreadyStored data' e" using b by blast
  moreover have "\<forall>e. alreadyStored data e \<longrightarrow> alreadyStored data' e" using a b by blast
  moreover have "n \<le> n'" using a b by linarith
  moreover have "n' = n \<longrightarrow> data' = data"
  proof
    assume "n' = n"
    with a b have "n1 = n" "n' = n1" by linarith+
    with a b show "data' = data" by blast
  qed
  ultimately show ?case by simp
qed

lemma addPoll_stored_unchanged:
  "alreadyStored data entry \<Longrightarrow> addPoll entry (data, n) = Inr (data, n)"
  by (cases entry) (auto simp: addPoll_def alreadyStored_def Let_def split: option.splits)

lemma addPolls_stored_unchanged:
  "\<forall>e\<in>set es. alreadyStored data e \<Longrightarrow> addPolls es (data, n) = Inr (data, n)"
  by (induction es) (simp_all add: addPoll_stored_unchanged)

lemma alreadyStored_sortPolls: "alreadyStored (sortPolls data) e = alreadyStored data e"
  by (auto simp: alreadyStored_def sortPolls_def split: option.splits)

lemma mergeNewPolls_again: "mergeNewPolls (mergeNewPolls data es) es = mergeNewPolls data es"
proof (cases "addPolls es (data, 0)")
  case (Inl e)
  then show ?thesis by (simp add: mergeNewPolls_def)
next
  case (Inr st)
  obtain data' n' where st: "st = (data', n')" by (cases st)
  show ?thesis
  proof (cases "n' > 0 \<and> es \<noteq> []")
    case False
    with Inr st show ?thesis by (auto simp: mergeNewPolls_def)
  next
    case True
    from addPolls_stored[OF Inr[unfolded st]]
    have "\<forall>e\<in>set es. alreadyStored (sortPolls data') e"
      by (simp add: alreadyStored_sortPolls)
    then have "addPolls es (sortPolls data', 0) = Inr (sortPolls data', 0)"
      by (rule addPolls_stored_unchanged)
    with True Inr st show ?thesis by (simp add: mergeNewPolls_def)
  qed
qed

lemma cyclesSorted_sortPolls: "cyclesSorted (sortPolls data)"
  by (auto simp: cyclesSorted_def sortPolls_def)

lemma addedCount_again: "addedCount (mergeNewPolls data es) es = 0"
proof (cases "addPolls es (data, 0)")
  case (Inl e)
  then show ?thesis by (simp add: mergeNewPolls_def addedCount_def)
next
  case (Inr st)
  obtain data' n' where st: "st = (data', n')" by (cases st)
  show ?thesis
  proof (cases "n' > 0 \<and> es \<noteq> []")
    case False
    with Inr st show ?thesis by (auto simp: mergeNewPolls_def addedCount_def)
  next
    case True
    from addPolls_stored[OF Inr[unfolded st]]
    have "\<forall>e\<in>set es. alreadyStored (sortPolls data') e"
      by (simp add: alreadyStored_sortPolls)
    then have "addPolls es (sortPolls data', 0) = Inr (sortPolls data', 0)"
      by (rule addPolls_stored_unchanged)
    with True Inr st show ?thesis by (simp add: mergeNewPolls_def addedCount_def)
  qed
qed

lemma addedCount_duplicate:
  "data year = Some el \<Longrightarrow> \<exists>q\<in>set (polls el). url q = url p \<Longrightarrow> addedCount data [(year, p)] = 0"
  by (simp add: addedCount_def addPoll_stored_unchanged alreadyStored_def)


lemma mergeNewPolls_duplicate:
  "data year = Some el \<Longrightarrow> \<exists>q\<in>set (polls el). url q = url p \<Longrightarrow>
   mergeNewPolls data [(year, p)] = data"
  by (simp add: mergeNewPolls_def addPoll_stored_unchanged alreadyStored_def)

lemma mergeNewPolls_unchanged_or_sorted:
  "mergeNewPolls data es = data \<or> cyclesSorted (mergeNewPolls data es)"
  by (auto simp: mergeNewPolls_def cyclesSorted_sortPolls split: sum.splits)

lemmas merge_defs = mergeNewPolls_def addPoll_def sortPolls_def samplePoll_def pollUrl_def
  showNat.simps char_of_def bit_Suc_0_iff ELECTION_DATES_def actualResults_def toISODate_def msPerDay_def
  days_from_civil_def Let_def

lemma merged_sample_urls:
  "map_option (\<lambda>el. map url (polls el)) (mergeNewPolls storedData newBatch 2025) =
     Some [pollUrl 5534, pollUrl 5555, pollUrl 5556, pollUrl 5557]"
  by (simp add: merge_defs storedData_def storedCycle_def newBatch_def)


lemma merged_sample_count: "addedCount storedData newBatch = 3"
  by (simp add: addedCount_def merge_defs storedData_def storedCycle_def newBatch_def)



text \<open>
  C1. Merging is idempotent: merging the same batch a second time inserts nothing and
  gives the data set that merging it once gave; and merging a record whose URL is
  already in the cycle of its year inserts nothing and changes nothing.
\<close>

theorem merge_idempotent:
  "mergeNewPolls (mergeNewPolls data newPolls) newPolls = mergeNewPolls data newPolls
   \<and> addedCount (mergeNewPolls data newPolls) newPolls = 0
   \<and> (\<forall>year el p. data year = Some el \<and> (\<exists>q\<in>set (polls el). url q = url p)
          \<longrightarrow> addedCount data [(year, p)] = 0 \<and> mergeNewPolls data [(year, p)] = data)"
  using mergeNewPolls_again addedCount_again mergeNewPolls_duplicate addedCount_duplicate by blast

theorem merge_idempotent_witness:
  "storedData 2025 = Some storedCycle
   \<and> (\<exists>q\<in>set (polls storedCycle). url q = url (samplePoll 5534 20327 12 (23 / 5)))
   \<and> addedCount storedData [(2025, samplePoll 5534 20327 12 (23 / 5))] = 0
   \<and> mergeNewPolls storedData [(2025, samplePoll 5534 20327 12 (23 / 5))] = storedData
   \<and> addedCount storedData newBatch = 3
   \<and> map_option (\<lambda>el. map url (polls el)) (mergeNewPolls storedData newBatch 2025) =
       Some [pollUrl 5534, pollUrl 5555, pollUrl 5556, pollUrl 5557]
   \<and> addedCount (mergeNewPolls storedData newBatch) newBatch = 0
   \<and> mergeNewPolls (mergeNewPolls storedData newBatch) newBatch = mergeNewPolls storedData newBatch"
proof -
  have h1: "storedData 2025 = Some storedCycle"
    by (simp add: storedData_def)
  have h2: "\<exists>q\<in>set (polls storedCycle). url q = url (samplePoll 5534 20327 12 (23 / 5))"
    by (simp add: storedCycle_def)
  from merge_idempotent[of storedData newBatch] h1 h2
  have "addedCount storedData [(2025, samplePoll 5534 20327 12 (23 / 5))] = 0"
    and "mergeNewPolls storedData [(2025, samplePoll 5534 20327 12 (23 / 5))] = storedData"
    and "addedCount (mergeNewPolls storedData newBatch) newBatch = 0"
    and "mergeNewPolls (mergeNewPolls storedData newBatch) newBatch = mergeNewPolls storedData newBatch"
    by blast+
  with h1 h2 merged_sample_urls merged_sample_count show ?thesis by simp
qed




section \<open>Properties of the cycle assignment\<close>

lemma msPerDay_pos: "0 < msPerDay"
  by (simp add: msPerDay_def)

lemma aligned_distance:
  "(of_int \<bar>a * msPerDay - b * msPerDay\<bar> :: rat) / of_int msPerDay = of_int \<bar>a - b\<bar>"
proof -
  have "\<bar>a * msPerDay - b * msPerDay\<bar> = \<bar>a - b\<bar> * msPerDay"
    using msPerDay_pos by (simp add: abs_mult left_diff_distrib[symmetric])
  then show ?thesis using msPerDay_pos by simp
qed

lemma aligned_less: "a * msPerDay < b * msPerDay \<longleftrightarrow> a < b"
  using msPerDay_pos by simp

lemma aligned_ceiling:
  "\<lceil>(of_int (a * msPerDay - b * msPerDay) :: rat) / of_int msPerDay\<rceil> = a - b"
proof -
  have "a * msPerDay - b * msPerDay = (a - b) * msPerDay"
    by (simp add: left_diff_distrib)
  then show ?thesis using msPerDay_pos by simp
qed

lemma aligned_day: "toISODate (a * msPerDay) = a"
  using msPerDay_pos by (simp add: toISODate_def)

lemma calculateDaysUntilElection_aligned:
  "calculateDaysUntilElection (a * msPerDay) (b * msPerDay) = b - a"
  unfolding calculateDaysUntilElection_def Let_def by (rule aligned_ceiling)

lemma election_days:
  "days_from_civil 2013 9 9 = 15957" "days_from_civil 2017 9 11 = 17420"
  "days_from_civil 2021 9 13 = 18883" "days_from_civil 2025 9 8 = 20339"
  by (simp_all add: days_from_civil_def)

lemma election_mem:
  "(yr, e * msPerDay) \<in> set ELECTION_DATES \<longleftrightarrow>
     (yr = 2013 \<and> e = 15957) \<or> (yr = 2017 \<and> e = 17420)
     \<or> (yr = 2021 \<and> e = 18883) \<or> (yr = 2025 \<and> e = 20339)"
  using msPerDay_pos by (auto simp: ELECTION_DATES_def election_days)

lemma map_of_elections:
  "map_of ELECTION_DATES 2013 = Some (15957 * msPerDay)"
  "map_of ELECTION_DATES 2017 = Some (17420 * msPerDay)"
  "map_of ELECTION_DATES 2021 = Some (18883 * msPerDay)"
  "map_of ELECTION_DATES 2025 = Some (20339 * msPerDay)"
  by (simp_all add: ELECTION_DATES_def election_days)

lemma distances_aligned:
  "map (\<lambda>(year, elDate). (year, (of_int \<bar>elDate - day * msPerDay\<bar> :: rat) / of_int msPerDay))
       ELECTION_DATES =
   [(2013, of_int \<bar>15957 - day\<bar>), (2017, of_int \<bar>17420 - day\<bar>),
    (2021, of_int \<bar>18883 - day\<bar>), (2025, of_int \<bar>20339 - day\<bar>)]"
  unfolding ELECTION_DATES_def election_days
  by (simp only: list.map prod.case aligned_distance)

text \<open>The year that \<open>determineElectionYear\<close> gives a date at UTC midnight, by day number.\<close>

lemma determineElectionYear_aligned:
  "determineElectionYear (DateMs (day * msPerDay)) =
     (if day < 15957 then None
      else if day \<le> 16687 then Some 2013
      else if day < 16690 then None
      else if day \<le> 18150 then Some 2017
      else if day < 18153 then None
      else if day \<le> 19611 then Some 2021
      else if day \<le> 21069 then Some 2025
      else None)"
proof -
  have unfold: "determineElectionYear (DateMs (day * msPerDay)) =
     (if day < 15957 then None
      else
        let (closestYear, closestDistance) =
              fold (\<lambda>(year, distance) (closestYear, closestDistance).
                      if (case closestDistance of None \<Rightarrow> True | Some c \<Rightarrow> distance < c)
                      then (Some year, Some distance)
                      else (closestYear, closestDistance))
                   [(2013, rat_of_int \<bar>15957 - day\<bar>), (2017, of_int \<bar>17420 - day\<bar>),
                    (2021, of_int \<bar>18883 - day\<bar>), (2025, of_int \<bar>20339 - day\<bar>)] (None, None)
        in if (case closestDistance of None \<Rightarrow> False | Some c \<Rightarrow> c \<le> 730)
           then closestYear else None)"
    unfolding determineElectionYear_def
    by (simp only: jsdate.case distances_aligned map_of_elections option.sel aligned_less Let_def)
  consider "day < 15957" | "15957 \<le> day \<and> day \<le> 16687" | "16687 < day \<and> day < 16690"
    | "16690 \<le> day \<and> day \<le> 18150" | "18150 < day \<and> day < 18153"
    | "18153 \<le> day \<and> day \<le> 19611" | "19611 < day \<and> day \<le> 21069" | "21069 < day"
    by linarith
  then show ?thesis
  proof cases
    case 1
    then show ?thesis unfolding unfold by simp
  next
    case 2
    then show ?thesis unfolding unfold by simp
  next
    case 3
    then show ?thesis unfolding unfold by simp
  next
    case 4
    then show ?thesis unfolding unfold by simp
  next
    case 5
    then show ?thesis unfolding unfold by simp
  next
    case 6
    then have "(18153::rat) \<le> of_int day" "of_int day \<le> (19611::rat)"
      by simp_all
    with 6 show ?thesis unfolding unfold by (simp add: abs_if)
  next
    case 7
    then have "(19611::rat) < of_int day" "of_int day \<le> (21069::rat)"
      by simp_all
    with 7 show ?thesis unfolding unfold by (simp add: abs_if)
  next
    case 8
    then show ?thesis unfolding unfold by simp
  qed
qed

text \<open>The entry that \<open>fetchNewPolls\<close> builds for such a date, by day number.\<close>

lemma newPollEntry_aligned:
  assumes "details_date details = Some (DateMs (day * msPerDay))"
      and "details_mdgPercentage details = Some v"
  shows "newPollEntry details =
     (let e = (if day = 15957 then Some (2013, 15957)
               else if 16690 \<le> day \<and> day \<le> 17420 then Some (2017, 17420)
               else if 18153 \<le> day \<and> day \<le> 18883 then Some (2021, 18883)
               else if 19612 \<le> day \<and> day \<le> 20339 then Some (2025, 20339)
               else None)
      in case e of
           None \<Rightarrow> None
         | Some (year, elDay) \<Rightarrow>
             Some (year, \<lparr>date = day, mdgPercentage = v, pollster = details_pollster details,
                          daysUntilElection = elDay - day, rssTitle = None,
                          url = details_url details, scope = Some (details_scope details),
                          region = None\<rparr>))"
  unfolding newPollEntry_def
  by (simp add: assms determineElectionYear_aligned map_of_elections
        calculateDaysUntilElection_aligned aligned_day Let_def)

lemma newPollEntry_window:
  assumes "details_date details = Some (DateMs (day * msPerDay))"
      and "details_mdgPercentage details = Some v"
  shows "(\<exists>p. newPollEntry details = Some (year, p)) \<longleftrightarrow>
     (year = 2013 \<and> day = 15957) \<or> (year = 2017 \<and> 16690 \<le> day \<and> day \<le> 17420)
     \<or> (year = 2021 \<and> 18153 \<le> day \<and> day \<le> 18883)
     \<or> (year = 2025 \<and> 19612 \<le> day \<and> day \<le> 20339)"
  unfolding newPollEntry_aligned[OF assms] by (simp add: Let_def)

lemma closest_election_window:
  "(\<exists>e. (year, e * msPerDay) \<in> set ELECTION_DATES
        \<and> (\<forall>y' e'. (y', e' * msPerDay) \<in> set ELECTION_DATES \<longrightarrow>
               \<bar>e - day\<bar> < \<bar>e' - day\<bar> \<or> (\<bar>e - day\<bar> = \<bar>e' - day\<bar> \<and> year \<le> y'))
        \<and> days_from_civil 2013 9 9 \<le> day \<and> day \<le> e \<and> e - day \<le> 730)
   \<longleftrightarrow> (year = 2013 \<and> day = 15957) \<or> (year = 2017 \<and> 16690 \<le> day \<and> day \<le> 17420)
        \<or> (year = 2021 \<and> 18153 \<le> day \<and> day \<le> 18883)
        \<or> (year = 2025 \<and> 19612 \<le> day \<and> day \<le> 20339)"
    (is "?R \<longleftrightarrow> ?C")
proof
  assume ?R
  then obtain e where m: "(year, e * msPerDay) \<in> set ELECTION_DATES"
    and c: "\<forall>y' e'. (y', e' * msPerDay) \<in> set ELECTION_DATES \<longrightarrow>
               \<bar>e - day\<bar> < \<bar>e' - day\<bar> \<or> (\<bar>e - day\<bar> = \<bar>e' - day\<bar> \<and> year \<le> y')"
    and b: "15957 \<le> day" "day \<le> e" "e - day \<le> 730"
    unfolding election_days by blast
  have "(2021, 18883 * msPerDay) \<in> set ELECTION_DATES"
    by (simp add: election_mem)
  with c have c21: "\<bar>e - day\<bar> < \<bar>18883 - day\<bar> \<or> (\<bar>e - day\<bar> = \<bar>18883 - day\<bar> \<and> year \<le> 2021)"
    by blast
  from m consider "year = 2013 \<and> e = 15957" | "year = 2017 \<and> e = 17420"
    | "year = 2021 \<and> e = 18883" | "year = 2025 \<and> e = 20339"
    unfolding election_mem by blast
  then show ?C
  proof cases
    case 1
    with b show ?thesis by linarith
  next
    case 2
    with b show ?thesis by linarith
  next
    case 3
    with b show ?thesis by linarith
  next
    case 4
    with b c21 show ?thesis by linarith
  qed
next
  assume ?C
  then consider (a) "year = 2013 \<and> day = 15957" | (b) "year = 2017 \<and> 16690 \<le> day \<and> day \<le> 17420"
    | (c) "year = 2021 \<and> 18153 \<le> day \<and> day \<le> 18883"
    | (d) "year = 2025 \<and> 19612 \<le> day \<and> day \<le> 20339"
    by blast
  then show ?R
  proof cases
    case a
    then have "\<bar>15957 - day\<bar> < \<bar>e' - day\<bar> \<or> (\<bar>15957 - day\<bar> = \<bar>e' - day\<bar> \<and> year \<le> y')"
      if "(y', e' * msPerDay) \<in> set ELECTION_DATES" for y' e'
      using that unfolding election_mem by linarith
    with a show ?thesis
      unfolding election_days by (intro exI[of _ 15957]) (simp add: election_mem)
  next
    case b
    then have "\<bar>17420 - day\<bar> < \<bar>e' - day\<bar> \<or> (\<bar>17420 - day\<bar> = \<bar>e' - day\<bar> \<and> year \<le> y')"
      if "(y', e' * msPerDay) \<in> set ELECTION_DATES" for y' e'
      using that unfolding election_mem by linarith
    with b show ?thesis
      unfolding election_days by (intro exI[of _ 17420]) (simp add: election_mem)
  next
    case c
    then have "\<bar>18883 - day\<bar> < \<bar>e' - day\<bar> \<or> (\<bar>18883 - day\<bar> = \<bar>e' - day\<bar> \<and> year \<le> y')"
      if "(y', e' * msPerDay) \<in> set ELECTION_DATES" for y' e'
      using that unfolding election_mem by linarith
    with c show ?thesis
      unfolding election_days by (intro exI[of _ 18883]) (simp add: election_mem)
  next
    case d
    then have "\<bar>20339 - day\<bar> < \<bar>e' - day\<bar> \<or> (\<bar>20339 - day\<bar> = \<bar>e' - day\<bar> \<and> year \<le> y')"
      if "(y', e' * msPerDay) \<in> set ELECTION_DATES" for y' e'
      using that unfolding election_mem by linarith
    with d show ?thesis
      unfolding election_days by (intro exI[of _ 20339]) (simp add: election_mem)
  qed
qed

text \<open>
  The window at its boundary: a poll 731 days before an election is in no cycle; a poll
  730 days before the election of 2017 or of 2021 is in that election's cycle; a poll
  730 days before the election of 2025 is closer to the election of 2021, which it
  follows, and is in no cycle.
\<close>

lemma window_boundary:
  assumes "details_date details = Some (DateMs (day * msPerDay))"
      and "details_mdgPercentage details = Some v"
      and "(yr, e * msPerDay) \<in> set ELECTION_DATES"
  shows "e - day = 731 \<Longrightarrow> newPollEntry details = None"
    and "e - day = 730 \<Longrightarrow> yr = 2017 \<or> yr = 2021 \<Longrightarrow> \<exists>p. newPollEntry details = Some (yr, p)"
    and "e - day = 730 \<Longrightarrow> yr = 2013 \<or> yr = 2025 \<Longrightarrow> newPollEntry details = None"
  using assms(3) unfolding election_mem newPollEntry_aligned[OF assms(1,2)]
  by (auto simp: Let_def)

lemma boundary_entry:
  "newPollEntry boundaryDetails =
     Some (2021, \<lparr>date = 18153, mdgPercentage = Num 4, pollster = ''Norstat for NRK'',
                  daysUntilElection = 730, rssTitle = None, url = pollUrl 4100,
                  scope = Some National, region = None\<rparr>)"
  by (simp add: newPollEntry_aligned[of _ 18153 "Num 4"] boundaryDetails_def)

text \<open>
  C3, as the code has it. A record whose date is a valid date (a time value at UTC
  midnight, \<open>day\<close> its day number) and that has a percentage is kept, in the cycle of the
  election of \<open>year\<close>, exactly when that election is the closest one (the earlier of two
  equally close ones), the date is not before 2013-09-09, the date is not after the
  election, and the election is at most 730 days away.
\<close>

theorem cycle_assignment:
  assumes "details_date details = Some (DateMs (day * msPerDay))"
      and "details_mdgPercentage details = Some v"
  shows "(\<exists>p. newPollEntry details = Some (year, p)) \<longleftrightarrow>
         (\<exists>e. (year, e * msPerDay) \<in> set ELECTION_DATES
             \<and> (\<forall>y' e'. (y', e' * msPerDay) \<in> set ELECTION_DATES \<longrightarrow>
                    \<bar>e - day\<bar> < \<bar>e' - day\<bar> \<or> (\<bar>e - day\<bar> = \<bar>e' - day\<bar> \<and> year \<le> y'))
             \<and> days_from_civil 2013 9 9 \<le> day \<and> day \<le> e \<and> e - day \<le> 730)"
  unfolding newPollEntry_window[OF assms] closest_election_window ..

theorem cycle_assignment_witness:
  "details_date boundaryDetails = Some (DateMs (18153 * msPerDay))
   \<and> details_mdgPercentage boundaryDetails = Some (Num 4)
   \<and> (\<exists>p. newPollEntry boundaryDetails = Some (2021, p))
   \<and> (\<exists>e. (2021, e * msPerDay) \<in> set ELECTION_DATES
        \<and> (\<forall>y' e'. (y', e' * msPerDay) \<in> set ELECTION_DATES \<longrightarrow>
               \<bar>e - 18153\<bar> < \<bar>e' - 18153\<bar> \<or> (\<bar>e - 18153\<bar> = \<bar>e' - 18153\<bar> \<and> 2021 \<le> y'))
        \<and> days_from_civil 2013 9 9 \<le> 18153 \<and> 18153 \<le> e \<and> e - 18153 \<le> 730)"
proof -
  have h1: "details_date boundaryDetails = Some (DateMs (18153 * msPerDay))"
    and h2: "details_mdgPercentage boundaryDetails = Some (Num 4)"
    by (simp_all add: boundaryDetails_def)
  have "\<exists>p. newPollEntry boundaryDetails = Some (2021, p)"
    by (simp add: boundary_entry)
  with cycle_assignment[OF h1 h2, of 2021] h1 h2 show ?thesis by blast
qed

text \<open>
  The claim C3 as stated fails: the election closest to a poll of 2021-12-22 is the one of
  2021-09-13, 100 days before it (the others are 3026, 1563 and 1356 days away), and the
  poll is discarded.
\<close>

theorem cycle_assignment_counterexample:
  "details_date lateDetails = Some (DateMs (18983 * msPerDay))
   \<and> determineElectionYear (DateMs (18983 * msPerDay)) = Some 2021
   \<and> map (\<lambda>(year, elDate). (year, \<bar>elDate div msPerDay - 18983\<bar>)) ELECTION_DATES =
       [(2013, 3026), (2017, 1563), (2021, 100), (2025, 1356)]
   \<and> calculateDaysUntilElection (18983 * msPerDay) (18883 * msPerDay) = - 100
   \<and> newPollEntry lateDetails = None"
proof -
  have "map (\<lambda>(year, elDate). (year, \<bar>elDate div msPerDay - 18983\<bar>)) ELECTION_DATES =
       [(2013, 3026), (2017, 1563), (2021, 100), (2025, 1356)]"
    by (simp add: ELECTION_DATES_def election_days msPerDay_def)
  then show ?thesis
    by (simp add: lateDetails_def newPollEntry_aligned[of _ 18983 "Num 4"]
          determineElectionYear_aligned calculateDaysUntilElection_aligned)
qed

section \<open>Properties of the extractor\<close>

lemma fetchPollDetails_Some:
  assumes "fetchPollDetails w u = Some details"
  obtains q where "w u = Page q" "details_date details = extractDate q"
    "details_mdgPercentage details = extractPercentage q" "details_url details = u"
    "details_scope details = extractScope q"
  using assms by (auto simp: fetchPollDetails_def split: response.splits if_splits)

lemma newPollEntry_Some:
  assumes "newPollEntry details = Some (year, p)"
  obtains t where "details_date details = Some (DateMs t)" "url p = details_url details"
    "scope p = Some (details_scope details)" "region p = None"
  using assms
  by (auto simp: newPollEntry_def Let_def split: option.splits jsdate.splits if_splits)

lemma fetchLoop_entries:
  "(\<forall>n details entry. fetchPollDetails w (pollUrl n) = Some details
        \<longrightarrow> newPollEntry details = Some entry \<longrightarrow> P entry) \<Longrightarrow>
   \<forall>entry\<in>set acc. P entry \<Longrightarrow>
   \<forall>entry\<in>set (fetchLoop w lastId n c acc). P entry"
proof (induction w lastId n c acc rule: fetchLoop.induct)
  case (1 w lastId n c acc)
  show ?case
  proof (cases "n \<le> lastId \<and> c < 30")
    case False
    then have "fetchLoop w lastId n c acc = acc"
      by (subst fetchLoop.simps) auto
    with 1(4) show ?thesis by simp
  next
    case True
    show ?thesis
    proof (cases "fetchPollDetails w (pollUrl n)")
      case None
      with True have "fetchLoop w lastId n c acc = fetchLoop w lastId (n + 1) (c + 1) acc"
        by (subst fetchLoop.simps) simp
      with 1(1)[OF True None 1(3) 1(4)] show ?thesis by simp
    next
      case (Some details)
      define acc' where "acc' = (case newPollEntry details of None \<Rightarrow> acc | Some entry \<Rightarrow> acc @ [entry])"
      have "\<forall>entry\<in>set acc'. P entry"
        using 1(3) 1(4) Some by (auto simp: acc'_def split: option.splits)
      with 1(2)[OF True Some 1(3)] have "\<forall>entry\<in>set (fetchLoop w lastId (n + 1) 0 acc'). P entry"
        by (simp add: acc'_def)
      moreover from True Some have "fetchLoop w lastId n c acc = fetchLoop w lastId (n + 1) 0 acc'"
        by (subst fetchLoop.simps) (simp add: acc'_def)
      ultimately show ?thesis by simp
    qed
  qed
qed

lemma fetchNewPolls_entries:
  assumes "(year, p) \<in> set (fetchNewPolls w startId maxChecks)"
  obtains q t where "w (url p) = Page q" "extractDate q = Some (DateMs t)"
    "scope p = Some (extractScope q)" "region p = None"
proof -
  let ?P = "\<lambda>entry. \<exists>q t. w (url (snd entry)) = Page q \<and> extractDate q = Some (DateMs t)
                  \<and> scope (snd entry) = Some (extractScope q) \<and> region (snd entry) = None"
  have "?P entry" if d: "fetchPollDetails w (pollUrl n) = Some details"
    and e: "newPollEntry details = Some entry" for n details entry
  proof -
    obtain yr p' where entry: "entry = (yr, p')" by (cases entry)
    from d obtain q where q: "w (pollUrl n) = Page q" "details_date details = extractDate q"
      "details_url details = pollUrl n" "details_scope details = extractScope q"
      by (rule fetchPollDetails_Some)
    from e[unfolded entry] obtain t where t: "details_date details = Some (DateMs t)"
      "url p' = details_url details" "scope p' = Some (details_scope details)" "region p' = None"
      by (rule newPollEntry_Some)
    from q t have "extractDate q = Some (DateMs t)" by simp
    with q t show ?thesis by (simp add: entry)
  qed
  then have "\<forall>entry\<in>set (fetchLoop w (startId + maxChecks) startId 0 []). ?P entry"
    by (intro fetchLoop_entries) auto
  with assms that show ?thesis
    by (fastforce simp: fetchNewPolls_def)
qed








lemma extractDate_aligned:
  assumes "extractDate p = Some (DateMs t)"
  shows "\<exists>day. t = day * msPerDay"
proof -
  have n: "\<exists>day. t' = day * msPerDay" if "newDate yr m d = DateMs t'" for yr m d t'
    using that by (auto simp: newDate_def Let_def split: if_splits)
  have b: "\<exists>day. t' = day * msPerDay" if "blockquoteDate s = Some (DateMs t')" for s t'
    using that n by (auto simp: blockquoteDate_def split: option.splits)
  have w: "\<exists>day. t' = day * msPerDay" if "norwegianDate s = Some (DateMs t')" for s t'
    using that n by (auto simp: norwegianDate_def split: option.splits property.splits)
  from assms b w show ?thesis
    by (auto simp: extractDate_def Let_def split: if_splits)
qed

lemma zero_link_overridden:
  "map (rx_match rx_mdg) (anchorHrefs zeroLinkPage) = [Some ''0.0'', Some ''4.5'']
   \<and> extractPercentage zeroLinkPage = Some (Num (45 / 10))"
  by (simp add: zeroLinkPage_def extractPercentage_def truthy_def string_defs rx_defs)

text \<open>
  C7 at a page with no link that carries the value and two scripts that do: the value of
  the second script replaces the value of the first.
\<close>

theorem percentage_last_script_wins:
  "anchorHrefs twoScriptsPage = []
   \<and> map (rx_match rx_mdg) (scriptContents twoScriptsPage) = [Some ''3.1'', Some ''4.2'']
   \<and> extractPercentage twoScriptsPage = Some (Num (42 / 10))"
  by (simp add: twoScriptsPage_def extractPercentage_def truthy_def string_defs rx_defs)

section \<open>Properties of the classification\<close>



lemma oslo_extractScope: "extractScope osloPage = Regional"
  by (simp add: extractScope_def osloPage_def string_defs)




text \<open>
  What holds of the region: a poll that the pass rewrites has a region exactly when it
  is made regional, and a poll that \<open>fetchNewPolls\<close> builds never has one.
\<close>

lemma analyzePollScope_coherent:
  "analyzePollScope w u = (sc, r) \<Longrightarrow> (sc = Regional \<longleftrightarrow> r \<noteq> None) \<and> r \<noteq> Some []"
proof -
  have "\<forall>x\<in>set regions. capitalize x \<noteq> []"
    by (simp add: regions_def capitalize_def)
  then have "capitalize x \<noteq> []" if "find P regions = Some x" for P x
    using that by (auto simp: find_Some_iff)
  then show "analyzePollScope w u = (sc, r) \<Longrightarrow> (sc = Regional \<longleftrightarrow> r \<noteq> None) \<and> r \<noteq> Some []"
    by (auto simp: analyzePollScope_def Let_def split: response.splits if_splits option.splits)
qed

lemma fixPoll_coherent:
  "scope p = Some National \<Longrightarrow> (scope (fixPoll w p) = Some Regional \<longleftrightarrow> region (fixPoll w p) \<noteq> None)"
  using analyzePollScope_coherent[of w "url p"]
  by (auto simp: fixPoll_def split: prod.splits option.splits)

lemma fetched_polls_region:
  "(year, p) \<in> set (fetchNewPolls w startId maxChecks) \<Longrightarrow> region p = None"
  by (erule fetchNewPolls_entries)

text \<open>
  C5 at a page whose area field is \<open>Oslo\<close>: the poll that \<open>fetchNewPolls\<close> builds from it,
  and that the merge stores, is regional and has no region.
\<close>

theorem regional_poll_without_region:
  "factRows osloPage = [[''Omr'' @ [CHR 0xE5] @ ''de'', ''Oslo'']]
   \<and> fetchNewPolls sampleWeb 5557 0 = [(2025, osloPoll)]
   \<and> scope osloPoll = Some Regional \<and> region osloPoll = None
   \<and> map_option (\<lambda>el. map (\<lambda>q. (date q, scope q, region q)) (polls el))
        (mergeNewPolls storedData (fetchNewPolls sampleWeb 5557 0) 2025) =
      Some [(20320, Some Regional, None), (20327, Some National, None), (20328, Some National, None)]"
  by (simp add: fetch_oslo)
     (simp add: merge_defs osloPage_def osloPoll_def storedData_def storedCycle_def)

section \<open>Properties of saving\<close>

text \<open>
  C9, as the code has it. \<open>saveData\<close> writes the data file itself and touches no other
  path. When the write completes the file holds the serialised data; when it fails the
  error is thrown again and the file holds what it held before (the failure came before
  the file was opened) or only the beginning of the serialised data.
\<close>

theorem saveData_writes_in_place:
  "(\<forall>path. path \<noteq> file \<longrightarrow> fst (saveData outcome file json files) path = files path)
   \<and> (outcome = Written \<longrightarrow> saveData outcome file json files = (files(file \<mapsto> json), Inr ()))
   \<and> (outcome \<noteq> Written \<longrightarrow>
        snd (saveData outcome file json files) = Inl WriteError
        \<and> (fst (saveData outcome file json files) file = files file
           \<or> (\<exists>n. fst (saveData outcome file json files) file = Some (take n json))))"
  by (cases outcome) (auto simp: saveData_def writeFileSync_def)

theorem saveData_writes_in_place_witness:
  "''data/other.json'' \<noteq> dataFile
   \<and> fst (saveData Written dataFile ''{ new data }'' (Map.empty(dataFile \<mapsto> ''{ old data }'')))
        ''data/other.json'' = None
   \<and> saveData Written dataFile ''{ new data }'' (Map.empty(dataFile \<mapsto> ''{ old data }'')) =
        (Map.empty(dataFile \<mapsto> ''{ new data }''), Inr ())
   \<and> FailedAfter 5 \<noteq> Written
   \<and> snd (saveData (FailedAfter 5) dataFile ''{ new data }'' (Map.empty(dataFile \<mapsto> ''{ old data }'')))
        = Inl WriteError"
proof -
  have h: "''data/other.json'' \<noteq> dataFile" by (simp add: dataFile_def)
  from saveData_writes_in_place[of dataFile Written "''{ new data }''" "Map.empty(dataFile \<mapsto> ''{ old data }'')"] h
  have a: "fst (saveData Written dataFile ''{ new data }'' (Map.empty(dataFile \<mapsto> ''{ old data }'')))
        ''data/other.json'' = None"
    and b: "saveData Written dataFile ''{ new data }'' (Map.empty(dataFile \<mapsto> ''{ old data }'')) =
        (Map.empty(dataFile \<mapsto> ''{ new data }''), Inr ())"
    by simp_all
  from saveData_writes_in_place[of dataFile "FailedAfter 5" "''{ new data }''" "Map.empty(dataFile \<mapsto> ''{ old data }'')"]
  have c: "snd (saveData (FailedAfter 5) dataFile ''{ new data }'' (Map.empty(dataFile \<mapsto> ''{ old data }'')))
        = Inl WriteError"
    by simp
  from h a b c show ?thesis by simp
qed

text \<open>
  The claim C9 as stated fails: a write that fails after five characters leaves the
  beginning of the new text in the data file, not the old content.
\<close>

theorem saveData_counterexample:
  "saveData (FailedAfter 5) dataFile ''{ new data }'' (Map.empty(dataFile \<mapsto> ''{ old data }'')) =
     (Map.empty(dataFile \<mapsto> ''{ new''), Inl WriteError)
   \<and> (Map.empty(dataFile \<mapsto> ''{ new'')) dataFile \<noteq> (Map.empty(dataFile \<mapsto> ''{ old data }'')) dataFile"
  by (simp add: saveData_def writeFileSync_def)

end
